theory Spec2Isabelle
  imports Complex_Main "HOL-Library.AList" "HOL-Library.Sublist"
begin

section \<open>The notebook EXC10-Test1-FOM\_Newton\_optimal\_parameter\_computation\<close>

text \<open>
  The repository's source is one Jupyter notebook: a script of eleven executed code cells
  that calls into pyMOR, matplotlib and the repository's own \<open>pdeopt\<close> package. The
  development has three parts.

  \<^item> The code cells are transcribed statement by statement into a small abstract syntax of
    the Python they use (\<open>expr\<close>, \<open>stmt\<close>). Every statement carries the line of the
    \<open>.ipynb\<close> file on which it starts, so that a statement of the model is found in the
    source by its number.
  \<^item> On top of the syntax stand an executable control-flow semantics (\<open>exec\<close>: which
    lines run, in which order, for a given outcome of the tests, loop lengths and raised
    exceptions) and the value-level semantics of the statements that compute on parameter
    vectors (element assignment into \<open>vis_mu\<close>, the bounds of the parameter box, the
    dictionary \<open>TR_parameters\<close>).
  \<^item> The outputs that the notebook file stores with its cells are transcribed as
    constants: they are the values the parameter vectors had when the notebook ran.

  The calls into the libraries are opaque: their results are inputs of the model.
\<close>

subsection \<open>Syntax of the Python fragment\<close>

datatype binop = Sub | Div

datatype expr =
    Name string
  | IntC int
  | FloatC real
  | Str string
  | NoneC
  | BoolC bool
  | ListE "expr list"
  | TupleE "expr list"
  | DictE "expr list"
  | KV expr expr
  | Kw string expr
  | Attr expr string
  | Subscript expr expr
  | Call expr "expr list"
  | BinOp binop expr expr
  | Is expr expr

text \<open>
  \<open>DictE\<close> holds \<open>KV key value\<close> items; the argument list of a \<open>Call\<close> holds positional
  arguments and \<open>Kw name value\<close> keyword arguments, in the order written.
\<close>

datatype stmt =
    Import nat string string
  | ImportFrom nat string "(string \<times> string) list"
  | Assign nat expr expr
  | AugAssign nat expr expr
  | Expr nat expr
  | For nat expr expr "stmt list"
  | While nat expr "stmt list"
  | If nat expr "stmt list" "stmt list"
  | Try nat "stmt list" "stmt list"

text \<open>
  \<open>Import l m a\<close> is \<open>import m as a\<close>; \<open>ImportFrom l m [(n, a), ...]\<close> is
  \<open>from m import n as a, ...\<close>; \<open>Try l body handler\<close> is \<open>try: body except: handler\<close>.
  The notebook uses neither \<open>AugAssign\<close>, \<open>While\<close> nor \<open>Try\<close>; they are part of the
  syntax so that their absence is a fact about the notebook and not about the type.
\<close>

subsection \<open>The code cells\<close>

text \<open>Cell 1 (lines 103--111).\<close>

definition cell1 :: "stmt list" where
  "cell1 =
   [ Import 103 ''sys'' ''sys'',
     Assign 104 (Name ''path'') (Str ''../../''),
     Expr 105 (Call (Attr (Attr (Name ''sys'') ''path'') ''append'') [Name ''path'']),
     Import 106 ''numpy'' ''np'',
     ImportFrom 108 ''matplotlib'' [(''pyplot'', ''plt'')],
     ImportFrom 110 ''pymor.basic'' [(''*'', ''*'')],
     Expr 111 (Call (Name ''set_log_levels'') [DictE [KV (Str ''pymor'') (Str ''WARN'')]]) ]"

text \<open>Cell 2 (lines 120--133).\<close>

definition cell2 :: "stmt list" where
  "cell2 =
   [ ImportFrom 120 ''pymor.core.logger''
       [(''set_log_levels'', ''set_log_levels''), (''getLogger'', ''getLogger'')],
     Expr 121 (Call (Name ''set_log_levels'')
       [DictE [KV (Str ''pymor'') (Str ''ERROR''),
               KV (Str ''distributed_adaptive_discretizations'') (Str ''DEBUG''),
               KV (Str ''notebook'') (Str ''INFO'')]]),
     Assign 124 (Name ''logger'') (Call (Name ''getLogger'') [Str ''notebook.notebook'']),
     Import 125 ''matplotlib'' ''mpl'',
     Assign 126 (Subscript (Attr (Name ''mpl'') ''rcParams'') (Str ''figure.figsize''))
       (TupleE [FloatC 12.0, FloatC 8.0]),
     Assign 127 (Subscript (Attr (Name ''mpl'') ''rcParams'') (Str ''font.size'')) (IntC 12),
     Assign 128 (Subscript (Attr (Name ''mpl'') ''rcParams'') (Str ''savefig.dpi'')) (IntC 300),
     Assign 130 (Name ''data_path'') (Str ''../../../EXC_data''),
     Assign 132 (Name ''bounding_box'') (ListE [ListE [IntC 0, IntC 0], ListE [IntC 2, IntC 1]]),
     Assign 133 (Name ''domain_of_interest'')
       (Call (Name ''BitmapFunction'')
         [Call (Attr (Str ''{}/Domain_of_interest.png'') ''format'') [Name ''data_path''],
          Kw ''range'' (ListE [IntC 1, IntC 0]),
          Kw ''bounding_box'' (Name ''bounding_box'')]) ]"

text \<open>Cell 3 (lines 163--198): the problem and its discretization.\<close>

definition cell3 :: "stmt list" where
  "cell3 =
   [ ImportFrom 163 ''pdeopt.problems''
       [(''EXC_problem'', ''EXC_problem''), (''set_input_dict'', ''set_input_dict'')],
     ImportFrom 164 ''pdeopt.discretizer''
       [(''discretize_quadratic_pdeopt_stationary_cg'',
         ''discretize_quadratic_pdeopt_stationary_cg'')],
     Assign 166 (Name ''parametric_quantities'')
       (DictE [KV (Str ''walls'') (ListE [IntC 1, IntC 4, IntC 9]),
               KV (Str ''windows'') (ListE []),
               KV (Str ''doors'') (ListE []),
               KV (Str ''heaters'') (ListE [IntC 1, IntC 3, IntC 5, IntC 6, IntC 7, IntC 8, IntC 9])]),
     Assign 167 (Name ''inactive_quantities'')
       (DictE [KV (Str ''removed_walls'') (ListE []),
               KV (Str ''open_windows'') (ListE []),
               KV (Str ''open_doors'')
                 (ListE [IntC 1, IntC 2, IntC 3, IntC 4, IntC 5, IntC 6, IntC 7, IntC 10]),
               KV (Str ''active_heaters'') (ListE [])]),
     Assign 168 (Name ''summed_quantities'')
       (DictE [KV (Str ''walls'')
                 (ListE [ListE [IntC 1, IntC 2, IntC 3, IntC 8], ListE [IntC 4, IntC 5, IntC 6, IntC 7]]),
               KV (Str ''windows'') (ListE []),
               KV (Str ''doors'') (ListE []),
               KV (Str ''heaters'')
                 (ListE [ListE [IntC 1, IntC 2], ListE [IntC 3, IntC 4],
                         ListE [IntC 9, IntC 10, IntC 11, IntC 12]])]),
     Assign 170 (Name ''coefficient_expressions'') NoneC,
     Assign 172 (Name ''parameters_in_q'') (BoolC True),
     Assign 173 (Name ''input_dict'')
       (Call (Name ''set_input_dict'')
         [Name ''parametric_quantities'', Name ''inactive_quantities'',
          Name ''coefficient_expressions'', Name ''summed_quantities'',
          Name ''parameters_in_q'',
          Kw ''ac'' (FloatC 0.5),
          Kw ''owc'' (ListE [FloatC 0.025, FloatC 0.1]),
          Kw ''iwc'' (ListE [FloatC 0.025, FloatC 0.1]),
          Kw ''idc'' (ListE [FloatC 0.005]),
          Kw ''wc'' (ListE [FloatC 0.0005]),
          Kw ''ht'' (ListE [IntC 0, IntC 100]),
          Kw ''owc_c'' (FloatC 0.001),
          Kw ''iwc_c'' (FloatC 0.025),
          Kw ''idc_c'' (FloatC 0.01),
          Kw ''wc_c'' (FloatC 0.025),
          Kw ''ht_c'' (IntC 80)]),
     Assign 178 (Name ''parameter_scaling'') (BoolC False),
     Assign 179 (Name ''u_out'') (IntC 5),
     Assign 181 (TupleE [Name ''problem'', Name ''parameter_scales''])
       (Call (Name ''EXC_problem'')
         [Name ''input_dict'', Name ''summed_quantities'',
          Kw ''outside_temperature'' (Name ''u_out''),
          Kw ''data_path'' (Name ''data_path''),
          Kw ''parameters_in_q'' (Name ''parameters_in_q''),
          Kw ''parameter_scaling'' (Name ''parameter_scaling''),
          Kw ''coefficient_expressions'' (Name ''coefficient_expressions'')]),
     Assign 186 (Name ''u_d'') (IntC 18),
     Assign 188 (Name ''mu_d'') NoneC,
     Assign 190 (Name ''sigma_d'') (IntC 100),
     Assign 191 (Name ''weights'')
       (DictE [KV (Str ''walls'') (ListE [FloatC 0.5, FloatC 0.25, FloatC 0.05]),
               KV (Str ''doors'') (IntC 1),
               KV (Str ''heaters'')
                 (ListE [FloatC 0.002, FloatC 0.002, FloatC 0.001, FloatC 0.001,
                         FloatC 0.001, FloatC 0.001, FloatC 0.004]),
               KV (Str ''windows'') (IntC 1),
               KV (Str ''state'') (Name ''sigma_d'')]),
     Assign 193 (Name ''diameter'')
       (BinOp Div (Call (Attr (Name ''np'') ''sqrt'') [IntC 2]) (FloatC 200)),
     Assign 194 (TupleE [Name ''opt_fom'', Name ''data'', Name ''mu_bar''])
       (Call (Name ''discretize_quadratic_pdeopt_stationary_cg'')
         [Name ''problem'', Name ''diameter'', Name ''weights'', Name ''parameter_scales'',
          Name ''domain_of_interest'',
          Kw ''desired_temperature'' (Name ''u_d''),
          Kw ''mu_for_u_d'' (Name ''mu_d''),
          Kw ''mu_for_tikhonov'' (Name ''mu_d''),
          Kw ''parameters_in_q'' (Name ''parameters_in_q''),
          Kw ''product'' (Str ''fixed_energy''),
          Kw ''use_corrected_gradient'' (BoolC True)]) ]"

text \<open>Cell 4 (lines 218--227): the constants of the optimization.\<close>

definition cell4 :: "stmt list" where
  "cell4 =
   [ Expr 218 (Call (Name ''print'') [Str ''information on the grid:'']),
     Expr 219 (Call (Name ''print'') [Subscript (Name ''data'') (Str ''grid'')]),
     Assign 221 (Name ''radius'') (FloatC 0.1),
     Assign 222 (Name ''FOC_tolerance'') (FloatC (1 / 10 ^ 12)),
     Assign 223 (Name ''max_it'') (IntC 400),
     Assign 224 (Name ''max_it_arm'') (IntC 50),
     Assign 225 (Name ''init_step_armijo'') (FloatC 0.5),
     Assign 226 (Name ''armijo_alpha'') (FloatC (1 / 10 ^ 4)),
     Assign 227 (Name ''epsilon_i'') (FloatC (1 / 10 ^ 8)) ]"

text \<open>Cell 5 (lines 252--253): the starting parameter.\<close>

definition cell5 :: "stmt list" where
  "cell5 =
   [ Assign 252 (Name ''mu'')
       (Subscript
         (Call (Attr (Attr (Name ''problem'') ''parameter_space'') ''sample_randomly'')
           [IntC 1, Kw ''seed'' (IntC 1)])
         (IntC 0)),
     Expr 253 (Call (Name ''print'') [Name ''mu'']) ]"

text \<open>Cell 6 (lines 328--348): the coefficient fields at a hand-set parameter.\<close>

definition cell6 :: "stmt list" where
  "cell6 =
   [ ImportFrom 328 ''pymor.discretizers.builtin.cg''
       [(''InterpolationOperator'', ''InterpolationOperator'')],
     Assign 330 (Name ''vis_mu'')
       (Subscript
         (Call (Attr (Attr (Name ''problem'') ''parameter_space'') ''sample_randomly'')
           [IntC 1, Kw ''seed'' (IntC 13)])
         (IntC 0)),
     Assign 331 (Subscript (Subscript (Name ''vis_mu'') (Str ''walls'')) (IntC 0)) (FloatC 0.35),
     Assign 332 (Subscript (Subscript (Name ''vis_mu'') (Str ''walls'')) (IntC 1)) (FloatC 0.2),
     Assign 333 (Subscript (Subscript (Name ''vis_mu'') (Str ''walls'')) (IntC 2)) (FloatC 0.0001),
     Assign 334 (Subscript (Subscript (Name ''vis_mu'') (Str ''heaters'')) (IntC 0)) (IntC 30),
     Assign 335 (Subscript (Subscript (Name ''vis_mu'') (Str ''heaters'')) (IntC 1)) (IntC 40),
     Assign 336 (Subscript (Subscript (Name ''vis_mu'') (Str ''heaters'')) (IntC 2)) (IntC 50),
     Assign 337 (Subscript (Subscript (Name ''vis_mu'') (Str ''heaters'')) (IntC 3)) (IntC 60),
     Assign 338 (Subscript (Subscript (Name ''vis_mu'') (Str ''heaters'')) (IntC 4)) (IntC 70),
     Assign 339 (Subscript (Subscript (Name ''vis_mu'') (Str ''heaters'')) (IntC 5)) (IntC 80),
     Assign 340 (Subscript (Subscript (Name ''vis_mu'') (Str ''heaters'')) (IntC 6)) (IntC 90),
     Assign 341 (Name ''diff'')
       (Call (Attr (Call (Name ''InterpolationOperator'')
                      [Subscript (Name ''data'') (Str ''grid''),
                       Attr (Name ''problem'') ''diffusion''])
                   ''as_vector'')
         [Name ''vis_mu'']),
     Assign 342 (Name ''rhs'')
       (Call (Attr (Call (Name ''InterpolationOperator'')
                      [Subscript (Name ''data'') (Str ''grid''),
                       Attr (Name ''problem'') ''rhs''])
                   ''as_vector'')
         [Name ''vis_mu'']),
     Assign 343 (Name ''doI'')
       (Call (Attr (Call (Name ''InterpolationOperator'')
                      [Subscript (Name ''data'') (Str ''grid''),
                       Name ''domain_of_interest''])
                   ''as_vector'')
         [Name ''vis_mu'']),
     Expr 344 (Call (Attr (Name ''opt_fom'') ''visualize'') [Name ''diff'']),
     Expr 345 (Call (Attr (Name ''plt'') ''savefig'')
       [Str ''ciao.pdf'', Kw ''format'' (Str ''pdf''), Kw ''bbox_inches'' (Str ''tight'')]),
     Expr 346 (Call (Attr (Name ''opt_fom'') ''visualize'') [Name ''rhs'']),
     Expr 348 (Call (Attr (Name ''opt_fom'') ''visualize'') [Name ''doI'']) ]"

text \<open>Cell 7 (lines 393--397): state and adjoint at the starting parameter.\<close>

definition cell7 :: "stmt list" where
  "cell7 =
   [ Assign 393 (Name ''u'') (Call (Attr (Name ''opt_fom'') ''solve'') [Name ''mu'']),
     Assign 394 (Name ''p'') (Call (Attr (Name ''opt_fom'') ''solve_dual'') [Name ''mu'']),
     Expr 396 (Call (Attr (Name ''opt_fom'') ''visualize'') [Name ''u'']),
     Expr 397 (Call (Attr (Name ''opt_fom'') ''visualize'') [Name ''p'']) ]"

text \<open>Cell 8 (lines 424--426): the functional at the starting parameter.\<close>

definition cell8 :: "stmt list" where
  "cell8 =
   [ Expr 424 (Call (Name ''print'')
       [Str ''Starting parameter: '',
        Call (Attr (Name ''opt_fom'') ''parse_parameter_inverse'') [Name ''mu'']]),
     Assign 425 (Name ''J_start'')
       (Call (Attr (Name ''opt_fom'') ''output_functional_hat'') [Name ''mu'']),
     Expr 426 (Call (Name ''print'') [Str ''Starting J: '', Name ''J_start'']) ]"

text \<open>Cell 9 (lines 473--484): the optimization.\<close>

definition cell9 :: "stmt list" where
  "cell9 =
   [ ImportFrom 473 ''pdeopt.TR''
       [(''solve_optimization_NewtonMethod'', ''solve_optimization_NewtonMethod'')],
     ImportFrom 474 ''pdeopt.tools'' [(''compute_errors'', ''compute_errors'')],
     Assign 476 (Name ''TR_parameters'')
       (DictE [KV (Str ''radius'') (FloatC (10 ^ 18)),
               KV (Str ''sub_tolerance'') (Name ''FOC_tolerance''),
               KV (Str ''max_iterations'') (Name ''max_it''),
               KV (Str ''starting_parameter'') (Name ''mu''),
               KV (Str ''epsilon_i'') (Name ''epsilon_i''),
               KV (Str ''max_iterations_armijo'') (Name ''max_it_arm''),
               KV (Str ''initial_step_armijo'') (Name ''init_step_armijo''),
               KV (Str ''armijo_alpha'') (Name ''armijo_alpha''),
               KV (Str ''full_order_model'') (BoolC True)]),
     Assign 484
       (TupleE [Name ''muoptfom'', Name ''_'', Name ''_'', Name ''_'',
                Name ''times_1'', Name ''mus_1'', Name ''Js_1'', Name ''FOC_1''])
       (Call (Name ''solve_optimization_NewtonMethod'')
         [Name ''opt_fom'', Attr (Name ''opt_fom'') ''parameter_space'', Name ''mu'',
          Name ''TR_parameters'', Kw ''timing'' (BoolC True)]) ]"

text \<open>Cell 10 (lines 531--534): the optimal parameter and its state.\<close>

definition cell10 :: "stmt list" where
  "cell10 =
   [ For 531 (Name ''i'')
       (Call (Name ''range'')
         [Call (Name ''len'') [Subscript (Name ''mus_1'') (IntC (- 1))]])
       [ Expr 532 (Call (Name ''print'')
           [Call (Attr (Str ''{0:.12e}'') ''format'')
              [Subscript (Subscript (Name ''mus_1'') (IntC (- 1))) (Name ''i'')]]) ],
     Assign 533 (Name ''u'')
       (Call (Attr (Name ''opt_fom'') ''solve'')
         [Call (Attr (Name ''opt_fom'') ''pre_parse_parameter'')
            [Subscript (Name ''mus_1'') (IntC (- 1))]]),
     Expr 534 (Call (Attr (Name ''opt_fom'') ''visualize'') [Name ''u'']) ]"

text \<open>Cell 11 (lines 552--566): the distance to the desired temperature.\<close>

definition cell11 :: "stmt list" where
  "cell11 =
   [ ImportFrom 552 ''pymor.discretizers.builtin.cg''
       [(''L2ProductP1'', ''L2ProductP1''), (''L2ProductQ1'', ''L2ProductQ1''),
        (''InterpolationOperator'', ''InterpolationOperator'')],
     ImportFrom 553 ''pymor.discretizers.builtin.grids.referenceelements''
       [(''square'', ''square'')],
     ImportFrom 554 ''pymor.discretizers.builtin.grids.boundaryinfos''
       [(''EmptyBoundaryInfo'', ''EmptyBoundaryInfo'')],
     If 555 (Is (Attr (Subscript (Name ''data'') (Str ''grid'')) ''reference_element'')
                (Name ''square''))
       [ Assign 556 (Name ''L2_OP'') (Name ''L2ProductQ1'') ]
       [ Assign 558 (Name ''L2_OP'') (Name ''L2ProductP1'') ],
     If 559 (Is (Name ''mu_d'') NoneC)
       [ Assign 560 (Name ''empty_bi'')
           (Call (Name ''EmptyBoundaryInfo'') [Subscript (Name ''data'') (Str ''grid'')]),
         Assign 561 (Name ''u_d'')
           (Call (Attr (Call (Name ''InterpolationOperator'')
                          [Subscript (Name ''data'') (Str ''grid''),
                           Call (Name ''ConstantFunction'') [Name ''u_d'', IntC 2]])
                       ''as_vector'')
             []),
         Assign 562 (Name ''diff'')
           (BinOp Sub (Call (Attr (Name ''u'') ''to_numpy'') [])
                      (Call (Attr (Name ''u_d'') ''to_numpy'') [])),
         Assign 563 (Name ''diff_'')
           (Call (Attr (Attr (Name ''opt_fom'') ''solution_space'') ''from_numpy'')
             [Name ''diff'']),
         Assign 564 (Name ''Restricted_L2_OP'')
           (Call (Name ''L2_OP'')
             [Subscript (Name ''data'') (Str ''grid''), Name ''empty_bi'',
              Kw ''dirichlet_clear_rows'' (BoolC False),
              Kw ''coefficient_function'' (Name ''domain_of_interest'')]),
         Expr 565 (Call (Name ''print'')
           [Call (Attr (Str ''{}'') ''format'')
              [Subscript
                 (Subscript
                    (Call (Attr (Name ''Restricted_L2_OP'') ''apply2'')
                       [Name ''diff_'', Name ''diff_''])
                    (IntC 0))
                 (IntC 0)]]),
         Expr 566 (Call (Name ''print'')
           [Call (Attr (Str ''{}'') ''format'')
              [BinOp Div
                 (Subscript
                    (Subscript
                       (Call (Attr (Name ''Restricted_L2_OP'') ''apply2'')
                          [Name ''diff_'', Name ''diff_''])
                       (IntC 0))
                    (IntC 0))
                 (Call (Attr (Name ''Restricted_L2_OP'') ''apply2'')
                    [Name ''u_d'', Name ''u_d''])]]) ]
       [] ]"

text \<open>The notebook runs its cells in the order of their execution counts 1 to 11.\<close>

definition notebook :: "stmt list" where
  "notebook = cell1 @ cell2 @ cell3 @ cell4 @ cell5 @ cell6 @ cell7 @ cell8 @ cell9
              @ cell10 @ cell11"

subsection \<open>Static reading of the statements\<close>

text \<open>The names an expression reads when it is evaluated.\<close>

fun names :: "expr \<Rightarrow> string list" where
  "names (Name x) = [x]"
| "names (IntC _) = []"
| "names (FloatC _) = []"
| "names (Str _) = []"
| "names NoneC = []"
| "names (BoolC _) = []"
| "names (ListE es) = concat (map names es)"
| "names (TupleE es) = concat (map names es)"
| "names (DictE es) = concat (map names es)"
| "names (KV k v) = names k @ names v"
| "names (Kw _ v) = names v"
| "names (Attr e _) = names e"
| "names (Subscript e i) = names e @ names i"
| "names (Call f as) = names f @ concat (map names as)"
| "names (BinOp _ a b) = names a @ names b"
| "names (Is a b) = names a @ names b"

text \<open>
  An assignment target either rebinds names (\<open>x = ...\<close>, \<open>x, y = ...\<close>) or stores into a
  slot of an object that exists already (\<open>e[i] = ...\<close>, \<open>e.a = ...\<close>). \<open>bound\<close> gives the
  names a target rebinds, \<open>in_place\<close> tells whether it stores into an existing object,
  and \<open>target_reads\<close> the names read to find that object.
\<close>

fun bound :: "expr \<Rightarrow> string list" where
  "bound (Name x) = [x]"
| "bound (TupleE ts) = concat (map bound ts)"
| "bound (ListE ts) = concat (map bound ts)"
| "bound _ = []"

fun in_place :: "expr \<Rightarrow> bool" where
  "in_place (Subscript _ _) = True"
| "in_place (Attr _ _) = True"
| "in_place (TupleE ts) = list_ex in_place ts"
| "in_place (ListE ts) = list_ex in_place ts"
| "in_place _ = False"

fun target_reads :: "expr \<Rightarrow> string list" where
  "target_reads (Subscript e i) = names e @ names i"
| "target_reads (Attr e _) = names e"
| "target_reads (TupleE ts) = concat (map target_reads ts)"
| "target_reads (ListE ts) = concat (map target_reads ts)"
| "target_reads _ = []"

fun line :: "stmt \<Rightarrow> nat" where
  "line (Import l _ _) = l"
| "line (ImportFrom l _ _) = l"
| "line (Assign l _ _) = l"
| "line (AugAssign l _ _) = l"
| "line (Expr l _) = l"
| "line (For l _ _ _) = l"
| "line (While l _ _) = l"
| "line (If l _ _ _) = l"
| "line (Try l _ _) = l"

text \<open>A statement together with the statements nested in it, in textual order.\<close>

fun flat :: "stmt \<Rightarrow> stmt list" where
  "flat (For l t i b) = For l t i b # concat (map flat b)"
| "flat (While l c b) = While l c b # concat (map flat b)"
| "flat (If l c a b) = If l c a b # concat (map flat a) @ concat (map flat b)"
| "flat (Try l a b) = Try l a b # concat (map flat a) @ concat (map flat b)"
| "flat s = [s]"

definition stmts :: "stmt list \<Rightarrow> stmt list" where
  "stmts ss = concat (map flat ss)"

text \<open>
  The names a statement reads itself (its nested statements are separate entries of
  \<open>stmts\<close>) and the names it binds.
\<close>

fun reads :: "stmt \<Rightarrow> string list" where
  "reads (Import _ _ _) = []"
| "reads (ImportFrom _ _ _) = []"
| "reads (Assign _ t v) = names v @ target_reads t"
| "reads (AugAssign _ t v) = names t @ names v"
| "reads (Expr _ e) = names e"
| "reads (For _ t i _) = names i @ target_reads t"
| "reads (While _ c _) = names c"
| "reads (If _ c _ _) = names c"
| "reads (Try _ _ _) = []"

fun binds :: "stmt \<Rightarrow> string list" where
  "binds (Import _ _ a) = [a]"
| "binds (ImportFrom _ _ ns) = map snd ns"
| "binds (Assign _ t _) = bound t"
| "binds (AugAssign _ t _) = bound t"
| "binds (For _ t _ _) = bound t"
| "binds _ = []"

fun is_branch_or_loop :: "stmt \<Rightarrow> bool" where
  "is_branch_or_loop (For _ _ _ _) = True"
| "is_branch_or_loop (While _ _ _) = True"
| "is_branch_or_loop (If _ _ _ _) = True"
| "is_branch_or_loop (Try _ _ _) = True"
| "is_branch_or_loop _ = False"

fun handles_exceptions :: "stmt \<Rightarrow> bool" where
  "handles_exceptions (Try _ _ _) = True"
| "handles_exceptions _ = False"

subsection \<open>Which lines run\<close>

text \<open>
  What a run does at the places where the notebook's text does not decide it is an input:
  the truth of the test of an \<open>if\<close>, the number of iterations of a loop, and whether a
  statement raises an exception. A statement inside loops runs once per iteration, and
  each of these may differ from one iteration to the next: they are functions of the line
  of the statement and of the iterations it runs in, the indices of the enclosing loops'
  current iterations, outermost first (empty for a top-level statement).

  For a loop on line \<open>l\<close> reached in the iterations \<open>p\<close>, \<open>raises w l p\<close> says whether
  evaluating its iterable (or its first test) raises, and \<open>raises w l (p @ [k])\<close> whether
  fetching item \<open>k\<close> (or testing for the \<open>k\<close>-th time again) does; the body of iteration
  \<open>k\<close> runs in the iterations \<open>p @ [k]\<close>.
\<close>

record world =
  truth :: "nat \<Rightarrow> nat list \<Rightarrow> bool"
  count :: "nat \<Rightarrow> nat list \<Rightarrow> nat"
  raises :: "nat \<Rightarrow> nat list \<Rightarrow> bool"

text \<open>
  An outcome is the list of the lines of the statements executed, in order, and whether an
  exception ended the execution. \<open>until_raise\<close> runs outcomes one after the other up to
  the first that raised: what would come after it does not run.
\<close>

fun until_raise :: "(nat list \<times> bool) list \<Rightarrow> nat list \<times> bool" where
  "until_raise [] = ([], False)"
| "until_raise ((t, r) # ps) =
     (if r then (t, True) else (case until_raise ps of (t', r') \<Rightarrow> (t @ t', r')))"

text \<open>
  \<open>exec w p s\<close> executes the statement \<open>s\<close> in the iterations \<open>p\<close>. A simple statement
  runs and may raise. A loop evaluates its header, then runs iteration after iteration,
  each a step of the header followed by the body, then the step of the header that ends
  the loop; an exception anywhere ends the loop and the statement. An \<open>if\<close> evaluates its
  test and runs one branch. A \<open>try\<close> runs its body and, if that raised, its handler, whose
  outcome is then the outcome of the statement: it is the only statement after which
  execution goes on although something raised.
\<close>

fun exec :: "world \<Rightarrow> nat list \<Rightarrow> stmt \<Rightarrow> nat list \<times> bool" where
  "exec w p (Import l _ _) = ([l], raises w l p)"
| "exec w p (ImportFrom l _ _) = ([l], raises w l p)"
| "exec w p (Assign l _ _) = ([l], raises w l p)"
| "exec w p (AugAssign l _ _) = ([l], raises w l p)"
| "exec w p (Expr l _) = ([l], raises w l p)"
| "exec w p (For l _ _ body) =
     (if raises w l p then ([l], True)
      else (case until_raise
                  (map (\<lambda>k. if raises w l (p @ [k]) then ([], True)
                            else until_raise (map (exec w (p @ [k])) body))
                       [0..<count w l p]
                   @ [([], raises w l (p @ [count w l p]))]) of
              (t, r) \<Rightarrow> (l # t, r)))"
| "exec w p (While l _ body) =
     (if raises w l p then ([l], True)
      else (case until_raise
                  (map (\<lambda>k. if raises w l (p @ [k]) then ([], True)
                            else until_raise (map (exec w (p @ [k])) body))
                       [0..<count w l p]
                   @ [([], raises w l (p @ [count w l p]))]) of
              (t, r) \<Rightarrow> (l # t, r)))"
| "exec w p (If l _ body orelse) =
     (if raises w l p then ([l], True)
      else (case (if truth w l p then until_raise (map (exec w p) body)
                  else until_raise (map (exec w p) orelse)) of
              (t, r) \<Rightarrow> (l # t, r)))"
| "exec w p (Try l body handler) =
     (case until_raise (map (exec w p) body) of
        (t, True) \<Rightarrow>
          (case until_raise (map (exec w p) handler) of (t', r) \<Rightarrow> (l # t @ t', r))
      | (t, False) \<Rightarrow> (l # t, False))"

text \<open>A statement list at top level.\<close>

definition exec_list :: "world \<Rightarrow> stmt list \<Rightarrow> nat list \<times> bool" where
  "exec_list w ss = until_raise (map (exec w []) ss)"

text \<open>
  A run in which no statement raises and the tests and loop lengths depend on the line
  only, and the run that a world would be if nothing raised in it.
\<close>

definition quiet :: "(nat \<Rightarrow> bool) \<Rightarrow> (nat \<Rightarrow> nat) \<Rightarrow> world" where
  "quiet t c = \<lparr> truth = (\<lambda>l _. t l), count = (\<lambda>l _. c l), raises = (\<lambda>_ _. False) \<rparr>"

definition calm :: "world \<Rightarrow> world" where
  "calm w = w\<lparr> raises := (\<lambda>_ _. False) \<rparr>"

text \<open>
  The run whose outputs the notebook file records: the grid is a \<open>Rect-Grid\<close> (line 211),
  so its reference element is the square and the test of line 555 holds; \<open>mu_d\<close> is
  \<open>None\<close> (line 188), so the test of line 559 holds; \<open>mus_1[-1]\<close> has the ten entries
  printed at lines 503--512, so the loop of line 531 runs ten times.
\<close>

definition recorded :: world where
  "recorded = quiet (\<lambda>l. l = 555 \<or> l = 559) (\<lambda>l. if l = 531 then 10 else 0)"

text \<open>
  \<open>raising_at l p w\<close>: the world \<open>w\<close>, except that the statement on line \<open>l\<close> raises
  when it is reached in the iterations \<open>p\<close>.
\<close>

definition raising_at :: "nat \<Rightarrow> nat list \<Rightarrow> world \<Rightarrow> world" where
  "raising_at l p w = w\<lparr> raises := (\<lambda>l' p'. (l' = l \<and> p' = p) \<or> raises w l' p') \<rparr>"

text \<open>
  \<open>cut_short p q\<close>: the outcome \<open>q\<close> did not raise, and \<open>p\<close> executed the same lines, or
  an initial segment of them if it raised.
\<close>

definition cut_short :: "nat list \<times> bool \<Rightarrow> nat list \<times> bool \<Rightarrow> bool" where
  "cut_short p q =
     (\<not> snd q \<and> (if snd p then prefix (fst p) (fst q) else fst p = fst q))"

subsection \<open>Calls and in-place changes\<close>

text \<open>
  The name under which a call finds its function (\<open>f(...)\<close> gives \<open>f\<close>, \<open>e.m(...)\<close> gives
  \<open>m\<close>), the calls of an expression with their arguments, innermost first as Python
  evaluates them, and the calls of a statement.
\<close>

fun callee :: "expr \<Rightarrow> string" where
  "callee (Name f) = f"
| "callee (Attr _ m) = m"
| "callee _ = []"

fun calls :: "expr \<Rightarrow> (string \<times> expr list) list" where
  "calls (ListE es) = concat (map calls es)"
| "calls (TupleE es) = concat (map calls es)"
| "calls (DictE es) = concat (map calls es)"
| "calls (KV k v) = calls k @ calls v"
| "calls (Kw _ v) = calls v"
| "calls (Attr e _) = calls e"
| "calls (Subscript e i) = calls e @ calls i"
| "calls (Call f as) = calls f @ concat (map calls as) @ [(callee f, as)]"
| "calls (BinOp _ a b) = calls a @ calls b"
| "calls (Is a b) = calls a @ calls b"
| "calls _ = []"

fun stmt_calls :: "stmt \<Rightarrow> (string \<times> expr list) list" where
  "stmt_calls (Assign _ t v) = calls v @ calls t"
| "stmt_calls (AugAssign _ t v) = calls t @ calls v"
| "stmt_calls (Expr _ e) = calls e"
| "stmt_calls (For _ t i _) = calls i @ calls t"
| "stmt_calls (While _ c _) = calls c"
| "stmt_calls (If _ c _ _) = calls c"
| "stmt_calls _ = []"

definition calling :: "string \<Rightarrow> stmt \<Rightarrow> bool" where
  "calling f s = (f \<in> set (map fst (stmt_calls s)))"

text \<open>The lines of the notebook that call \<open>f\<close>, and the arguments \<open>f\<close> is called with.\<close>

definition lines_calling :: "string \<Rightarrow> nat list" where
  "lines_calling f = map line (filter (calling f) (stmts notebook))"

definition args_of :: "string \<Rightarrow> expr list" where
  "args_of f = concat (map snd (filter (\<lambda>c. fst c = f)
                                      (concat (map stmt_calls (stmts notebook)))))"

text \<open>The keyword argument \<open>k\<close> of an argument list; the value under the key \<open>'k'\<close> of the
  items of a dictionary literal.\<close>

fun kwarg :: "string \<Rightarrow> expr list \<Rightarrow> expr option" where
  "kwarg k [] = None"
| "kwarg k (a # as) =
     (case a of Kw n v \<Rightarrow> (if n = k then Some v else kwarg k as) | _ \<Rightarrow> kwarg k as)"

fun item :: "string \<Rightarrow> expr list \<Rightarrow> expr option" where
  "item k [] = None"
| "item k (e # es) =
     (case e of KV (Str n) v \<Rightarrow> (if n = k then Some v else item k es) | _ \<Rightarrow> item k es)"

text \<open>
  The methods of Python's lists and dictionaries that change the object they are called
  on. A statement changes an object in place when it assigns to a subscript or an
  attribute, is an augmented assignment, or is a call of such a method; \<open>stored_into\<close>
  gives the names through which the changed object is reached.
\<close>

definition mutators :: "string list" where
  "mutators = [''append'', ''extend'', ''insert'', ''remove'', ''pop'', ''clear'', ''sort'',
               ''reverse'', ''update'', ''setdefault'', ''popitem'']"

definition method_call :: "stmt \<Rightarrow> (expr \<times> string) option" where
  "method_call s = (case s of Expr _ (Call (Attr e m) _) \<Rightarrow> Some (e, m) | _ \<Rightarrow> None)"

fun mutating :: "stmt \<Rightarrow> bool" where
  "mutating (Assign _ t _) = in_place t"
| "mutating (AugAssign _ _ _) = True"
| "mutating (For _ t _ _) = in_place t"
| "mutating s = (case method_call s of Some (e, m) \<Rightarrow> m \<in> set mutators | None \<Rightarrow> False)"

fun stored_into :: "stmt \<Rightarrow> string list" where
  "stored_into (Assign _ t _) = target_reads t"
| "stored_into (AugAssign _ t _) = names t"
| "stored_into (For _ t _ _) = target_reads t"
| "stored_into s =
     (case method_call s of
        Some (e, m) \<Rightarrow> (if m \<in> set mutators then names e else [])
      | None \<Rightarrow> [])"

definition writes :: "stmt \<Rightarrow> string list" where
  "writes s = binds s @ stored_into s"

text \<open>The statements of the notebook that write a name, each with the calls it makes.\<close>

definition written_by :: "string \<Rightarrow> (nat \<times> string list) list" where
  "written_by x =
     map (\<lambda>s. (line s, map fst (stmt_calls s)))
         (filter (\<lambda>s. x \<in> set (writes s)) (stmts notebook))"

definition read_by :: "string \<Rightarrow> nat list" where
  "read_by x = map line (filter (\<lambda>s. x \<in> set (reads s)) (stmts notebook))"

subsection \<open>Parameter vectors\<close>

text \<open>
  A parameter vector is a dictionary from group names to arrays of coefficients. Python
  variables hold references: \<open>env\<close> maps a variable to the address of its object and
  \<open>heap\<close> an address to the vector stored there, so that changing an object in place and
  rebinding a variable are different state changes.
\<close>

type_synonym mu = "(string \<times> real list) list"

datatype error = NameError string | KeyError string | IndexError

record pstate =
  env :: "string \<rightharpoonup> nat"
  heap :: "nat \<rightharpoonup> mu"

text \<open>
  The position in an array of \<open>n\<close> entries that an index denotes: indices from \<open>-n\<close> to
  \<open>-1\<close> count from the end, any index outside \<open>-n\<close> to \<open>n - 1\<close> is out of range.
\<close>

definition position :: "nat \<Rightarrow> int \<Rightarrow> nat option" where
  "position n i =
     (if 0 \<le> i \<and> i < int n then Some (nat i)
      else if - int n \<le> i \<and> i < 0 then Some (nat (int n + i))
      else None)"

text \<open>
  \<open>v[k][i] = x\<close>: look the variable up, then the group, then store into the array. An
  unbound variable, a missing group and an index out of range raise.
\<close>

definition assign_entry :: "pstate \<Rightarrow> string \<Rightarrow> string \<Rightarrow> int \<Rightarrow> real \<Rightarrow> error + pstate" where
  "assign_entry s v k i x =
     (case env s v of
        None \<Rightarrow> Inl (NameError v)
      | Some a \<Rightarrow>
          (case heap s a of
             None \<Rightarrow> Inl (NameError v)
           | Some m \<Rightarrow>
               (case map_of m k of
                  None \<Rightarrow> Inl (KeyError k)
                | Some xs \<Rightarrow>
                    (case position (length xs) i of
                       None \<Rightarrow> Inl IndexError
                     | Some j \<Rightarrow>
                         Inr (s\<lparr>heap := (heap s)(a \<mapsto> AList.update k (xs[j := x]) m)\<rparr>)))))"

text \<open>
  The statements of the form \<open>v['k'][i] = c\<close> with a literal index and a literal number,
  read off the syntax, and their execution one after the other; the first error ends it.
\<close>

fun literal :: "expr \<Rightarrow> real option" where
  "literal (IntC c) = Some (of_int c)"
| "literal (FloatC x) = Some x"
| "literal _ = None"

definition entry_assignment :: "stmt \<Rightarrow> (string \<times> string \<times> int \<times> real) option" where
  "entry_assignment s =
     (case s of
        Assign _ (Subscript (Subscript (Name v) (Str k)) (IntC i)) e \<Rightarrow>
          map_option (\<lambda>x. (v, k, i, x)) (literal e)
      | _ \<Rightarrow> None)"

definition entry_assignments :: "stmt list \<Rightarrow> (string \<times> string \<times> int \<times> real) list" where
  "entry_assignments ss = List.map_filter entry_assignment ss"


text \<open>
  Cell 6 after line 330: \<open>vis_mu\<close> is bound to the vector the sampler returned, a fresh
  object, and the element assignments of the cell run on it. \<open>vis_mu_after\<close> is the
  vector that \<open>vis_mu\<close> holds when lines 341 to 343 read it.
\<close>

definition sampled_state :: "mu \<Rightarrow> pstate" where
  "sampled_state m = \<lparr> env = [''vis_mu'' \<mapsto> 0], heap = [0 \<mapsto> m] \<rparr>"

definition deref :: "pstate \<Rightarrow> string \<Rightarrow> error + mu" where
  "deref s v =
     (case env s v of
        None \<Rightarrow> Inl (NameError v)
      | Some a \<Rightarrow> (case heap s a of None \<Rightarrow> Inl (NameError v) | Some m \<Rightarrow> Inr m))"


subsection \<open>The parameter box\<close>

text \<open>
  The bounds are the intervals passed to \<open>set_input_dict\<close> at lines 173 to 175: \<open>owc\<close>
  and \<open>iwc\<close> (outer and inner walls) for the group \<open>walls\<close>, \<open>ht\<close> for the group
  \<open>heaters\<close>. A vector lies in the box when every coefficient of every group lies in the
  interval of its group.
\<close>

definition interval :: "expr \<Rightarrow> (real \<times> real) option" where
  "interval e =
     (case e of
        ListE [a, b] \<Rightarrow>
          (case (literal a, literal b) of (Some lo, Some hi) \<Rightarrow> Some (lo, hi) | _ \<Rightarrow> None)
      | _ \<Rightarrow> None)"

definition input_args :: "expr list" where
  "input_args = args_of ''set_input_dict''"

definition box :: "string \<Rightarrow> (real \<times> real) option" where
  "box g =
     (if g = ''walls'' then
        (case (Option.bind (kwarg ''owc'' input_args) interval,
               Option.bind (kwarg ''iwc'' input_args) interval) of
           (Some (lo, hi), Some (lo', hi')) \<Rightarrow> Some (max lo lo', min hi hi')
         | _ \<Rightarrow> None)
      else if g = ''heaters'' then Option.bind (kwarg ''ht'' input_args) interval
      else None)"





subsection \<open>The recorded run\<close>

text \<open>
  The outputs stored in the notebook file: the starting parameter printed by cell 5
  (line 246) and the six iterates printed by the optimizer (lines 449 to 466), each with
  the value of the functional printed beside it; the starting value of the functional
  (line 419). The flat vectors list the seven heaters first and the three walls last, as
  the two prints of the starting parameter (lines 246 and 416 to 418) show. The constants
  are the numbers as printed: the iterates with nine significant digits, the optimum with
  thirteen.
\<close>

definition recorded_mu :: mu where
  "recorded_mu =
     [(''heaters'', [41.7022004702574, 72.0324493442158, 0.011437481734488664,
                     30.233257263183976, 14.675589081711305, 9.233859476879779,
                     18.62602113776709]),
      (''walls'', [0.05091705452822859, 0.05475756056730025, 0.06541125505025178])]"

definition recorded_J_start :: real where
  "recorded_J_start = 501.30528547701397"









text \<open>The value of the first assignment \<open>x = ...\<close> to the name \<open>x\<close> in a statement list.\<close>

fun assigned_value :: "string \<Rightarrow> stmt list \<Rightarrow> expr option" where
  "assigned_value x [] = None"
| "assigned_value x (s # ss) =
     (case s of
        Assign _ (Name y) v \<Rightarrow> (if y = x then Some v else assigned_value x ss)
      | _ \<Rightarrow> assigned_value x ss)"


subsection \<open>The optimizer's call\<close>

text \<open>
  The items of the dictionary literal bound to \<open>TR_parameters\<close> (line 476), the names the
  call of the optimizer binds (line 484), and the value of an item or argument when it is
  a literal number.
\<close>

definition TR_parameters :: "expr list" where
  "TR_parameters =
     (case assigned_value ''TR_parameters'' notebook of Some (DictE es) \<Rightarrow> es | _ \<Rightarrow> [])"


definition width :: "(real \<times> real) option \<Rightarrow> real" where
  "width b = (case b of None \<Rightarrow> 0 | Some (lo, hi) \<Rightarrow> hi - lo)"




subsection \<open>The sampler\<close>

text \<open>
  \<open>sample_call l\<close> reads the count and the seed off the call
  \<open>sample_randomly(count, seed=...)\<close> on line \<open>l\<close>, when both are literals.
\<close>

definition sample_call :: "nat \<Rightarrow> (int \<times> int option) option" where
  "sample_call l =
     (case concat (map (\<lambda>s. concat (map snd (filter (\<lambda>c. fst c = ''sample_randomly'')
                                                     (stmt_calls s))))
                       (filter (\<lambda>s. line s = l) (stmts notebook))) of
        IntC n # as \<Rightarrow>
          (case kwarg ''seed'' as of
             None \<Rightarrow> Some (n, None)
           | Some (IntC sd) \<Rightarrow> Some (n, Some sd)
           | Some _ \<Rightarrow> None)
      | _ \<Rightarrow> None)"

subsection \<open>Files\<close>

text \<open>
  The value of a string expression of the notebook: a literal, a name bound to a literal,
  or \<open>'...{}...'.format(e)\<close> with the first \<open>{}\<close> replaced by the value of \<open>e\<close>.
\<close>

fun fill :: "string \<Rightarrow> string \<Rightarrow> string" where
  "fill (a # b # cs) v =
     (if a = CHR ''{'' \<and> b = CHR ''}'' then v @ cs else a # fill (b # cs) v)"
| "fill cs v = cs"

definition str_value :: "expr \<Rightarrow> string option" where
  "str_value e =
     (case e of
        Str s \<Rightarrow> Some s
      | Name x \<Rightarrow> (case assigned_value x notebook of Some (Str s) \<Rightarrow> Some s | _ \<Rightarrow> None)
      | _ \<Rightarrow> None)"

definition path_value :: "expr \<Rightarrow> string option" where
  "path_value e =
     (case e of
        Call (Attr (Str f) m) [a] \<Rightarrow>
          (if m = ''format'' then map_option (fill f) (str_value a) else None)
      | _ \<Rightarrow> str_value e)"

text \<open>
  Modelled from the spec: the file-system effects of the library calls, whose code
  (pyMOR's \<open>BitmapFunction\<close>, pdeopt's \<open>EXC_problem\<close>, matplotlib's \<open>savefig\<close>) is not in
  the notebook. The spec gives the file I/O of the notebook as PNG masks, read by the
  bitmap functions and by the problem factory under its data path, and PDF plot export:
  \<open>BitmapFunction(file, ...)\<close> reads \<open>file\<close>, \<open>EXC_problem(..., data_path=d, ...)\<close>
  reads the masks under \<open>d\<close>, \<open>savefig(file, ...)\<close> writes \<open>file\<close>, and no other call
  touches the file system. The path is \<open>None\<close> when the notebook does not determine it.
\<close>

datatype fs_event = ReadFile "string option" | ReadMasks "string option" | WriteFile "string option"

definition first_arg :: "expr list \<Rightarrow> expr option" where
  "first_arg as = (case as of [] \<Rightarrow> None | a # _ \<Rightarrow> Some a)"

definition fs_effect :: "string \<times> expr list \<Rightarrow> fs_event list" where
  "fs_effect c =
     (case c of (f, as) \<Rightarrow>
        if f = ''BitmapFunction'' then [ReadFile (Option.bind (first_arg as) path_value)]
        else if f = ''EXC_problem'' then [ReadMasks (Option.bind (kwarg ''data_path'' as) path_value)]
        else if f = ''savefig'' then [WriteFile (Option.bind (first_arg as) path_value)]
        else [])"

definition fs_effects :: "fs_event list" where
  "fs_effects = concat (map fs_effect (concat (map stmt_calls (stmts notebook))))"

definition callees :: "string list" where
  "callees = remdups (map fst (concat (map stmt_calls (stmts notebook))))"

section \<open>Properties of the notebook\<close>

subsection \<open>Evaluation lemmas\<close>

lemmas cells = cell1_def cell2_def cell3_def cell4_def cell5_def cell6_def cell7_def
  cell8_def cell9_def cell10_def cell11_def

lemma concat_replicate_single: "concat (replicate n [x]) = replicate n x"
  by (induction n) simp_all

lemma count_list_replicate: "count_list (replicate n x) y = (if x = y then n else 0)"
  by (induction n) auto

text \<open>Sequences of outcomes none of which raised.\<close>

lemma until_raise_none:
  "list_all (\<lambda>p. \<not> snd p) ps \<Longrightarrow> until_raise ps = (concat (map fst ps), False)"
  by (induction ps rule: until_raise.induct) auto

lemma until_raise_constant:
  "until_raise (map (\<lambda>k. (t, False)) ks @ [([], False)]) =
     (concat (replicate (length ks) t), False)"
  by (induction ks) simp_all


lemma calm_simps [simp]:
  "truth (calm w) = truth w" "count (calm w) = count w" "raises (calm w) l p = False"
  by (simp_all add: calm_def)

lemma calm_quiet [simp]: "calm (quiet t c) = quiet t c"
  by (simp add: calm_def quiet_def)

lemma quiet_simps [simp]:
  "truth (quiet t c) l p = t l" "count (quiet t c) l p = c l"
  by (simp_all add: quiet_def)

lemma quiet_raises [simp]: "\<not> raises (quiet t c) l p"
  by (simp add: quiet_def)

lemma raising_at_simps [simp]:
  "truth (raising_at l p w) = truth w" "count (raising_at l p w) = count w"
  "raises (raising_at l p w) l' p' \<longleftrightarrow> (l' = l \<and> p' = p) \<or> raises w l' p'"
  by (simp_all add: raising_at_def)

text \<open>
  The lines of a run in which nothing raises: they depend on the world only through the
  length of the loop of line 531 and the outcome of the tests of lines 555 and 559.
\<close>

lemma exec_calm_notebook:
  "exec_list (calm w) notebook =
     ([103, 104, 105, 106, 108, 110, 111, 120, 121, 124, 125, 126, 127, 128,
       130, 132, 133, 163, 164, 166, 167, 168, 170, 172, 173, 178, 179, 181,
       186, 188, 190, 191, 193, 194, 218, 219, 221, 222, 223, 224, 225, 226,
       227, 252, 253, 328, 330, 331, 332, 333, 334, 335, 336, 337, 338, 339,
       340, 341, 342, 343, 344, 345, 346, 348, 393, 394, 396, 397, 424, 425,
       426, 473, 474, 476, 484]
      @ 531 # replicate (count w 531 []) 532
      @ [533, 534, 552, 553, 554, 555]
      @ [if truth w 555 [] then 556 else 558]
      @ 559 # (if truth w 559 [] then [560, 561, 562, 563, 564, 565, 566] else []),
      False)"
  by (simp add: exec_list_def notebook_def cells until_raise_constant
      concat_replicate_single)

lemma exec_quiet_notebook:
  "exec_list (quiet t c) notebook =
     ([103, 104, 105, 106, 108, 110, 111, 120, 121, 124, 125, 126, 127, 128,
       130, 132, 133, 163, 164, 166, 167, 168, 170, 172, 173, 178, 179, 181,
       186, 188, 190, 191, 193, 194, 218, 219, 221, 222, 223, 224, 225, 226,
       227, 252, 253, 328, 330, 331, 332, 333, 334, 335, 336, 337, 338, 339,
       340, 341, 342, 343, 344, 345, 346, 348, 393, 394, 396, 397, 424, 425,
       426, 473, 474, 476, 484]
      @ 531 # replicate (c 531) 532
      @ [533, 534, 552, 553, 554, 555]
      @ [if t 555 then 556 else 558]
      @ 559 # (if t 559 then [560, 561, 562, 563, 564, 565, 566] else []),
      False)"
  using exec_calm_notebook [of "quiet t c"] by simp

subsection \<open>Control flow\<close>

text \<open>
  Claim C4, as stated: the notebook contains no control flow, and in every run every
  statement executes exactly once. It fails: the flattened notebook contains a branch or
  loop, and in the recorded run the statement of line 532 (the loop body) executes ten
  times and the statement of line 558 (the \<open>else\<close> branch) never.
\<close>

theorem zero_control_flow_counterexample:
  "list_ex is_branch_or_loop (stmts notebook)
   \<and> count_list (fst (exec_list recorded notebook)) 532 = 10
   \<and> count_list (fst (exec_list recorded notebook)) 558 = 0"
proof -
  have "list_ex is_branch_or_loop (stmts notebook)"
    by (simp add: notebook_def cells stmts_def)
  moreover have "count_list (fst (exec_list recorded notebook)) 532 = 10"
    by (simp add: recorded_def exec_quiet_notebook count_list_replicate)
  moreover have "count_list (fst (exec_list recorded notebook)) 558 = 0"
    by (simp add: recorded_def exec_quiet_notebook count_list_replicate)
  ultimately show ?thesis by simp
qed

text \<open>
  Claim C4, amended: the notebook contains exactly three control-flow statements, the
  \<open>for\<close> of line 531, the \<open>if\<close>/\<open>else\<close> of line 555 and the \<open>if\<close> of line 559. In a
  run in which no statement raises, the executed lines are, in this order: every
  statement of cells 1 to 9 once; line 531; line 532 once per entry of \<open>mus_1[-1]\<close>;
  lines 533 to 555 once; exactly one of lines 556 and 558; line 559; and lines 560 to
  566 once each when its test holds, not at all otherwise.
\<close>

theorem control_flow_of_notebook:
  "map line (filter is_branch_or_loop (stmts notebook)) = [531, 555, 559]
   \<and> exec_list (quiet t c) notebook =
     ([103, 104, 105, 106, 108, 110, 111, 120, 121, 124, 125, 126, 127, 128,
       130, 132, 133, 163, 164, 166, 167, 168, 170, 172, 173, 178, 179, 181,
       186, 188, 190, 191, 193, 194, 218, 219, 221, 222, 223, 224, 225, 226,
       227, 252, 253, 328, 330, 331, 332, 333, 334, 335, 336, 337, 338, 339,
       340, 341, 342, 343, 344, 345, 346, 348, 393, 394, 396, 397, 424, 425,
       426, 473, 474, 476, 484]
      @ 531 # replicate (c 531) 532
      @ [533, 534, 552, 553, 554, 555]
      @ [if t 555 then 556 else 558]
      @ 559 # (if t 559 then [560, 561, 562, 563, 564, 565, 566] else []),
      False)"
proof -
  have "map line (filter is_branch_or_loop (stmts notebook)) = [531, 555, 559]"
    by (simp add: notebook_def cells stmts_def)
  then show ?thesis
    using exec_quiet_notebook [of t c] by simp
qed

subsection \<open>Parameter vectors\<close>


lemma box_values: "box ''walls'' = Some (0.025, 0.1) \<and> box ''heaters'' = Some (0, 100)"
  by (simp add: box_def input_args_def args_of_def notebook_def cells stmts_def interval_def)








lemma mutating_lines:
  "map line (filter mutating (stmts notebook)) =
     [105, 126, 127, 128, 331, 332, 333, 334, 335, 336, 337, 338, 339, 340]"
  by code_simp

lemma assign_entry_env: "assign_entry s v k i x = Inr s' \<Longrightarrow> env s' = env s"
  by (auto simp: assign_entry_def split: option.splits)
















subsection \<open>Changes in place\<close>

lemma line_331:
  "entry_assignments (filter (\<lambda>s. line s = 331) notebook) = [(''vis_mu'', ''walls'', 0, 0.35)]"
  by (simp add: entry_assignments_def notebook_def cells entry_assignment_def)

lemma first_assignment:
  "assign_entry (sampled_state recorded_mu) ''vis_mu'' ''walls'' 0 0.35 =
     Inr \<lparr> env = [''vis_mu'' \<mapsto> 0],
           heap = [0 \<mapsto> [(''heaters'', [41.7022004702574, 72.0324493442158, 0.011437481734488664,
                                    30.233257263183976, 14.675589081711305, 9.233859476879779,
                                    18.62602113776709]),
                         (''walls'', [0.35, 0.05475756056730025, 0.06541125505025178])]] \<rparr>"
  by (simp add: assign_entry_def sampled_state_def recorded_mu_def position_def)

text \<open>
  Claim C8, as stated: every state change of the notebook rebinds a top-level variable and
  no statement changes an existing object in place. It fails: the notebook has statements
  that store into existing objects, and line 331 is one. Run on the state in which
  \<open>vis_mu\<close> refers to the sampled vector, it leaves \<open>vis_mu\<close> bound to the same address
  and changes the vector stored there.
\<close>

theorem rebinding_only_counterexample:
  "list_ex mutating (stmts notebook)
   \<and> entry_assignments (filter (\<lambda>s. line s = 331) notebook) = [(''vis_mu'', ''walls'', 0, 0.35)]
   \<and> env (sampled_state recorded_mu) ''vis_mu'' = Some 0
   \<and> deref (sampled_state recorded_mu) ''vis_mu'' = Inr recorded_mu
   \<and> (case assign_entry (sampled_state recorded_mu) ''vis_mu'' ''walls'' 0 0.35 of
        Inl e \<Rightarrow> False
      | Inr s \<Rightarrow> env s ''vis_mu'' = Some 0 \<and> deref s ''vis_mu'' \<noteq> Inr recorded_mu)"
proof -
  have "filter mutating (stmts notebook) \<noteq> []"
    using mutating_lines by auto
  then have "list_ex mutating (stmts notebook)"
    by (simp add: list_ex_iff filter_empty_conv)
  moreover have "env (sampled_state recorded_mu) ''vis_mu'' = Some 0"
    and "deref (sampled_state recorded_mu) ''vis_mu'' = Inr recorded_mu"
    by (simp_all add: sampled_state_def deref_def)
  moreover have "case assign_entry (sampled_state recorded_mu) ''vis_mu'' ''walls'' 0 0.35 of
        Inl e \<Rightarrow> False
      | Inr s \<Rightarrow> env s ''vis_mu'' = Some 0 \<and> deref s ''vis_mu'' \<noteq> Inr recorded_mu"
    unfolding first_assignment by (simp add: deref_def recorded_mu_def)
  ultimately show ?thesis using line_331 by simp
qed

text \<open>
  Claim C8, amended: the statements of the notebook that change an existing object in
  place are exactly fourteen: \<open>sys.path.append(path)\<close> (line 105), the three item
  assignments into \<open>mpl.rcParams\<close> (lines 126 to 128) and the ten element assignments
  into \<open>vis_mu\<close> (lines 331 to 340); every other assignment rebinds top-level names.
  An element assignment that succeeds changes no binding of a variable: its whole effect
  is on the object.
\<close>

theorem in_place_changes_of_notebook:
  "map line (filter mutating (stmts notebook)) =
     [105, 126, 127, 128, 331, 332, 333, 334, 335, 336, 337, 338, 339, 340]
   \<and> (\<forall>s v k i x s'. assign_entry s v k i x = Inr s' \<longrightarrow> env s' = env s)"
  using mutating_lines assign_entry_env by blast

theorem in_place_changes_of_notebook_witness:
  "\<exists>s'. assign_entry (sampled_state recorded_mu) ''vis_mu'' ''walls'' 0 0.35 = Inr s'
        \<and> env s' = env (sampled_state recorded_mu)"
  using in_place_changes_of_notebook first_assignment by blast

subsection \<open>Groups and signs of the coefficients\<close>












subsection \<open>Runs in which a statement raises\<close>

text \<open>
  Without a \<open>try\<close>, an exception ends the run where it is raised: the run executes an
  initial segment of the lines of the run in which nothing raises, and ends raised.
\<close>

lemma cut_short_refl: "\<not> snd q \<Longrightarrow> cut_short q q"
  by (simp add: cut_short_def)

lemma cut_short_nothing: "\<not> snd q \<Longrightarrow> cut_short ([], r) q \<longleftrightarrow> (r \<or> fst q = [])"
  by (auto simp: cut_short_def)

lemma until_raise_cut_short:
  "list_all2 cut_short ps qs \<Longrightarrow> cut_short (until_raise ps) (until_raise qs)"
proof (induction ps qs rule: list_all2_induct)
  case Nil
  then show ?case by (simp add: cut_short_def)
next
  case (Cons p ps q qs)
  obtain t r where p: "p = (t, r)" by (cases p)
  obtain u where q: "q = (u, False)" using Cons.hyps(1) by (cases q) (auto simp: cut_short_def)
  obtain t' r' where ps: "until_raise ps = (t', r')" by (cases "until_raise ps")
  obtain u' where qs: "until_raise qs = (u', False)"
    using Cons.IH by (cases "until_raise qs") (auto simp: cut_short_def)
  show ?case
    using Cons.hyps(1) Cons.IH unfolding p q
    by (cases r; cases r') (auto simp: ps qs cut_short_def)
qed

lemma until_raise_map_cut_short:
  assumes "\<And>x. x \<in> set xs \<Longrightarrow> cut_short (f x) (g x)"
  shows "cut_short (until_raise (map f xs)) (until_raise (map g xs))"
  by (rule until_raise_cut_short) (simp add: list_all2_map1 list_all2_map2 list.rel_refl_strong assms)

lemma until_raise_quiet:
  assumes "\<And>x. x \<in> set ps \<Longrightarrow> \<not> snd x"
  shows "\<not> snd (until_raise ps)"
proof -
  have "list_all (\<lambda>p. \<not> snd p) ps" using assms by (simp add: list_all_iff)
  then show ?thesis by (simp add: until_raise_none)
qed

lemma until_raise_map_quiet:
  assumes "\<And>x. x \<in> set xs \<Longrightarrow> \<not> snd (f x)"
  shows "\<not> snd (until_raise (map f xs))"
proof (rule until_raise_quiet)
  fix y assume "y \<in> set (map f xs)"
  then obtain x where "x \<in> set xs" "y = f x" by auto
  with assms show "\<not> snd y" by simp
qed

lemma loop_quiet:
  assumes "\<And>k. k < n \<Longrightarrow> \<not> snd (g k)"
  shows "\<not> snd (until_raise (map g [0..<n] @ [([], False)]))"
proof (rule until_raise_quiet)
  fix y assume "y \<in> set (map g [0..<n] @ [([], False)])"
  then consider k where "k < n" "y = g k" | "y = ([], False)" by auto
  then show "\<not> snd y" using assms by cases simp_all
qed

lemma exec_calm_quiet: "\<not> snd (exec (calm w) p s)"
proof (induction "calm w" p s rule: exec.induct)
  case (6 p l uu uv body)
  have "\<not> snd (until_raise
       (map (\<lambda>k. until_raise (map (exec (calm w) (p @ [k])) body)) [0..<count w l p]
        @ [([], False)]))"
  proof (rule loop_quiet)
    fix k assume "k < count w l p"
    with 6 show "\<not> snd (until_raise (map (exec (calm w) (p @ [k])) body))"
      by (intro until_raise_map_quiet) simp
  qed
  then show ?case by (auto split: prod.splits)
next
  case (7 p l uw body)
  have "\<not> snd (until_raise
       (map (\<lambda>k. until_raise (map (exec (calm w) (p @ [k])) body)) [0..<count w l p]
        @ [([], False)]))"
  proof (rule loop_quiet)
    fix k assume "k < count w l p"
    with 7 show "\<not> snd (until_raise (map (exec (calm w) (p @ [k])) body))"
      by (intro until_raise_map_quiet) simp
  qed
  then show ?case by (auto split: prod.splits)
next
  case (8 p l ux body orelse)
  show ?case
  proof (cases "truth w l p")
    case True
    with 8 have "\<not> snd (until_raise (map (exec (calm w) p) body))"
      by (intro until_raise_map_quiet) simp
    with True show ?thesis by (auto split: prod.splits)
  next
    case False
    with 8 have "\<not> snd (until_raise (map (exec (calm w) p) orelse))"
      by (intro until_raise_map_quiet) simp
    with False show ?thesis by (auto split: prod.splits)
  qed
next
  case (9 p l body handler)
  then have "\<not> snd (until_raise (map (exec (calm w) p) body))"
    by (intro until_raise_map_quiet) simp
  then show ?case by (auto split: prod.splits bool.splits)
qed simp_all

lemma exec_calm_starts:
  "is_branch_or_loop s \<Longrightarrow> \<exists>t. exec (calm w) p s = (line s # t, False)"
  using exec_calm_quiet [of w p s]
  by (cases s) (auto split: prod.splits bool.splits)

lemma cut_short_Cons: "cut_short (t, r) (u, b) \<Longrightarrow> cut_short (l # t, r) (l # u, b)"
  by (auto simp: cut_short_def)

lemma loop_cut_short:
  assumes body: "\<And>k. k < n \<Longrightarrow> \<not> rk k \<Longrightarrow> cut_short (f k) (g k)"
    and quiet: "\<And>k. k < n \<Longrightarrow> \<not> snd (g k)"
  shows "cut_short
           (until_raise (map (\<lambda>k. if rk k then ([], True) else f k) [0..<n] @ [([], b)]))
           (until_raise (map g [0..<n] @ [([], False)]))"
proof (rule until_raise_cut_short)
  have "list_all2 cut_short (map (\<lambda>k. if rk k then ([], True) else f k) [0..<n]) (map g [0..<n])"
    using body quiet
    by (auto simp: list_all2_map1 list_all2_map2 cut_short_def intro!: list.rel_refl_strong)
  moreover have "list_all2 cut_short [([], b)] [([], False)]"
    by (simp add: cut_short_def)
  ultimately show "list_all2 cut_short
      (map (\<lambda>k. if rk k then ([], True) else f k) [0..<n] @ [([], b)])
      (map g [0..<n] @ [([], False)])"
    by (rule list_all2_appendI)
qed

lemma try_free_nested:
  "\<not> list_ex handles_exceptions (flat (For l a b body)) \<Longrightarrow> x \<in> set body \<Longrightarrow>
     \<not> list_ex handles_exceptions (flat x)"
  "\<not> list_ex handles_exceptions (flat (While l c body)) \<Longrightarrow> x \<in> set body \<Longrightarrow>
     \<not> list_ex handles_exceptions (flat x)"
  "\<not> list_ex handles_exceptions (flat (If l c body orelse)) \<Longrightarrow> x \<in> set body \<Longrightarrow>
     \<not> list_ex handles_exceptions (flat x)"
  "\<not> list_ex handles_exceptions (flat (If l c body orelse)) \<Longrightarrow> x \<in> set orelse \<Longrightarrow>
     \<not> list_ex handles_exceptions (flat x)"
  by (auto simp: list_ex_iff)

lemma exec_cut_short:
  "\<not> list_ex handles_exceptions (flat s) \<Longrightarrow> cut_short (exec w p s) (exec (calm w) p s)"
proof (induction w p s rule: exec.induct)
  case (6 w p l uu uv body)
  show ?case
  proof (cases "raises w l p")
    case True
    obtain t where "exec (calm w) p (For l uu uv body) = (l # t, False)"
      using exec_calm_starts [of "For l uu uv body" w p] by auto
    with True show ?thesis by (simp add: cut_short_def)
  next
    case False
    have "cut_short
           (until_raise (map (\<lambda>k. if raises w l (p @ [k]) then ([], True)
                                  else until_raise (map (exec w (p @ [k])) body))
                             [0..<count w l p]
                         @ [([], raises w l (p @ [count w l p]))]))
           (until_raise (map (\<lambda>k. until_raise (map (exec (calm w) (p @ [k])) body))
                             [0..<count w l p]
                         @ [([], False)]))"
    proof (rule loop_cut_short)
      fix k assume k: "k < count w l p" "\<not> raises w l (p @ [k])"
      show "cut_short (until_raise (map (exec w (p @ [k])) body))
                      (until_raise (map (exec (calm w) (p @ [k])) body))"
      proof (rule until_raise_map_cut_short)
        fix x assume "x \<in> set body"
        with "6.IH" [of k x] False k try_free_nested(1) [OF "6.prems"]
        show "cut_short (exec w (p @ [k]) x) (exec (calm w) (p @ [k]) x)" by simp
      qed
    next
      fix k
      show "\<not> snd (until_raise (map (exec (calm w) (p @ [k])) body))"
        by (rule until_raise_map_quiet) (rule exec_calm_quiet)
    qed
    with False show ?thesis
      by (auto split: prod.splits intro: cut_short_Cons simp: cut_short_def)
  qed
next
  case (7 w p l uw body)
  show ?case
  proof (cases "raises w l p")
    case True
    obtain t where "exec (calm w) p (While l uw body) = (l # t, False)"
      using exec_calm_starts [of "While l uw body" w p] by auto
    with True show ?thesis by (simp add: cut_short_def)
  next
    case False
    have "cut_short
           (until_raise (map (\<lambda>k. if raises w l (p @ [k]) then ([], True)
                                  else until_raise (map (exec w (p @ [k])) body))
                             [0..<count w l p]
                         @ [([], raises w l (p @ [count w l p]))]))
           (until_raise (map (\<lambda>k. until_raise (map (exec (calm w) (p @ [k])) body))
                             [0..<count w l p]
                         @ [([], False)]))"
    proof (rule loop_cut_short)
      fix k assume k: "k < count w l p" "\<not> raises w l (p @ [k])"
      show "cut_short (until_raise (map (exec w (p @ [k])) body))
                      (until_raise (map (exec (calm w) (p @ [k])) body))"
      proof (rule until_raise_map_cut_short)
        fix x assume "x \<in> set body"
        with "7.IH" [of k x] False k try_free_nested(2) [OF "7.prems"]
        show "cut_short (exec w (p @ [k]) x) (exec (calm w) (p @ [k]) x)" by simp
      qed
    next
      fix k
      show "\<not> snd (until_raise (map (exec (calm w) (p @ [k])) body))"
        by (rule until_raise_map_quiet) (rule exec_calm_quiet)
    qed
    with False show ?thesis
      by (auto split: prod.splits intro: cut_short_Cons simp: cut_short_def)
  qed
next
  case (8 w p l ux body orelse)
  show ?case
  proof (cases "raises w l p")
    case True
    obtain t where "exec (calm w) p (If l ux body orelse) = (l # t, False)"
      using exec_calm_starts [of "If l ux body orelse" w p] by auto
    with True show ?thesis by (simp add: cut_short_def)
  next
    case False
    let ?b = "if truth w l p then body else orelse"
    have "cut_short (until_raise (map (exec w p) ?b)) (until_raise (map (exec (calm w) p) ?b))"
    proof (rule until_raise_map_cut_short)
      fix x assume "x \<in> set ?b"
      with "8.IH" False try_free_nested(3,4) [OF "8.prems"]
      show "cut_short (exec w p x) (exec (calm w) p x)"
        by (auto split: if_splits)
    qed
    with False show ?thesis
      by (cases "truth w l p")
        (auto split: prod.splits intro: cut_short_Cons simp: cut_short_def)
  qed
next
  case (9 w p l body handler)
  then show ?case by simp
qed (simp_all add: cut_short_def)

lemma stmts_set: "s \<in> set ss \<Longrightarrow> set (flat s) \<subseteq> set (stmts ss)"
  by (auto simp: stmts_def)

lemma exec_list_cut_short:
  assumes "\<not> list_ex handles_exceptions (stmts ss)"
  shows "cut_short (exec_list w ss) (exec_list (calm w) ss)"
  unfolding exec_list_def
proof (rule until_raise_map_cut_short)
  fix s assume "s \<in> set ss"
  then have "\<not> list_ex handles_exceptions (flat s)"
    using assms stmts_set [of s ss] by (auto simp: list_ex_iff)
  then show "cut_short (exec w [] s) (exec (calm w) [] s)"
    by (rule exec_cut_short)
qed

lemma try_free_notebook: "\<not> list_ex handles_exceptions (stmts notebook)"
  by code_simp

lemma prefix_calm_notebook:
  "prefix (fst (exec_list w notebook)) (fst (exec_list (calm w) notebook))"
proof -
  have "cut_short (exec_list w notebook) (exec_list (calm w) notebook)"
    using try_free_notebook by (rule exec_list_cut_short)
  then show ?thesis
    by (auto simp: cut_short_def split: if_splits)
qed

lemma sorted_lines:
  "sorted ([103, 104, 105, 106, 108, 110, 111, 120, 121, 124, 125, 126, 127, 128,
       130, 132, 133, 163, 164, 166, 167, 168, 170, 172, 173, 178, 179, 181,
       186, 188, 190, 191, 193, 194, 218, 219, 221, 222, 223, 224, 225, 226,
       227, 252, 253, 328, 330, 331, 332, 333, 334, 335, 336, 337, 338, 339,
       340, 341, 342, 343, 344, 345, 346, 348, 393, 394, 396, 397, 424, 425,
       426, 473, 474, 476, 484]
      @ 531 # replicate n 532
      @ [533, 534, 552, 553, 554, 555]
      @ [if a then 556 else 558]
      @ 559 # (if b then [560, 561, 562, 563, 564, 565, 566] else []) :: nat list)"
  (is "sorted (?pre @ ?post)")
proof -
  have pre: "sorted ?pre" unfolding sorted2 sorted1 by simp
  have pre_le: "\<forall>x\<in>set ?pre. x \<le> 484" by simp
  have post: "sorted ?post" by (auto simp: sorted_append)
  have post_ge: "\<forall>y\<in>set ?post. 531 \<le> y" by auto
  have cross: "\<forall>x\<in>set ?pre. \<forall>y\<in>set ?post. x \<le> y"
  proof (intro ballI)
    fix x y assume "x \<in> set ?pre" "y \<in> set ?post"
    then have "x \<le> 484" "531 \<le> y" using pre_le post_ge by blast+
    then show "x \<le> y" by simp
  qed
  show ?thesis
    by (rule iffD2 [OF sorted_append]) (intro conjI pre post cross)
qed

lemma sorted_calm_notebook: "sorted (fst (exec_list (calm w) notebook))"
  unfolding exec_calm_notebook fst_conv by (rule sorted_lines)

lemma sorted_exec_notebook: "sorted (fst (exec_list w notebook))"
proof -
  obtain zs where "fst (exec_list (calm w) notebook) = fst (exec_list w notebook) @ zs"
    using prefix_calm_notebook [of w] by (auto elim: prefixE)
  moreover have "sorted (fst (exec_list (calm w) notebook))"
    by (rule sorted_calm_notebook)
  ultimately have "sorted (fst (exec_list w notebook) @ zs)" by simp
  then show ?thesis by (simp only: sorted_append)
qed




subsection \<open>The trust-region radius\<close>

lemma written_radius: "written_by ''radius'' = [(221, [])]"
  by code_simp

lemma read_radius: "read_by ''radius'' = []"
  by code_simp

lemma value_radius: "assigned_value ''radius'' notebook = Some (FloatC 0.1)"
  by (simp add: notebook_def cells)

lemma TR_parameters_items:
  "TR_parameters =
     [KV (Str ''radius'') (FloatC (10 ^ 18)),
      KV (Str ''sub_tolerance'') (Name ''FOC_tolerance''),
      KV (Str ''max_iterations'') (Name ''max_it''),
      KV (Str ''starting_parameter'') (Name ''mu''),
      KV (Str ''epsilon_i'') (Name ''epsilon_i''),
      KV (Str ''max_iterations_armijo'') (Name ''max_it_arm''),
      KV (Str ''initial_step_armijo'') (Name ''init_step_armijo''),
      KV (Str ''armijo_alpha'') (Name ''armijo_alpha''),
      KV (Str ''full_order_model'') (BoolC True)]"
  by (simp add: TR_parameters_def notebook_def cells)

lemma written_TR_parameters: "written_by ''TR_parameters'' = [(476, [])]"
  by code_simp

lemma read_TR_parameters: "read_by ''TR_parameters'' = [484]"
  by code_simp

lemma solver_args:
  "args_of ''solve_optimization_NewtonMethod'' =
     [Name ''opt_fom'', Attr (Name ''opt_fom'') ''parameter_space'', Name ''mu'',
      Name ''TR_parameters'', Kw ''timing'' (BoolC True)]"
  by code_simp

text \<open>
  Claim C10: the variable \<open>radius\<close>, bound to 0.1 at line 221, is dead: no statement
  of the notebook reads it. The dictionary \<open>TR_parameters\<close> is built at line 476 from
  other names, with the literal \<open>1.e18\<close> under \<open>'radius'\<close> and \<open>True\<close> under
  \<open>'full_order_model'\<close>, and is passed as it is to the optimizer at line 484. The radius
  passed exceeds the width of every interval of the parameter box, which the value 0.1
  does not.
\<close>

theorem radius_is_dead:
  "written_by ''radius'' = [(221, [])]
   \<and> assigned_value ''radius'' notebook = Some (FloatC 0.1)
   \<and> read_by ''radius'' = []
   \<and> item ''radius'' TR_parameters = Some (FloatC (10 ^ 18))
   \<and> item ''full_order_model'' TR_parameters = Some (BoolC True)
   \<and> concat (map names TR_parameters) =
       [''FOC_tolerance'', ''max_it'', ''mu'', ''epsilon_i'', ''max_it_arm'',
        ''init_step_armijo'', ''armijo_alpha'']
   \<and> written_by ''TR_parameters'' = [(476, [])]
   \<and> read_by ''TR_parameters'' = [484]
   \<and> args_of ''solve_optimization_NewtonMethod'' =
       [Name ''opt_fom'', Attr (Name ''opt_fom'') ''parameter_space'', Name ''mu'',
        Name ''TR_parameters'', Kw ''timing'' (BoolC True)]
   \<and> 0.1 < width (box ''heaters'')
   \<and> width (box ''heaters'') < 10 ^ 18
   \<and> width (box ''walls'') < 10 ^ 18"
proof -
  have "item ''radius'' TR_parameters = Some (FloatC (10 ^ 18))"
    and "item ''full_order_model'' TR_parameters = Some (BoolC True)"
    and "concat (map names TR_parameters) =
       [''FOC_tolerance'', ''max_it'', ''mu'', ''epsilon_i'', ''max_it_arm'',
        ''init_step_armijo'', ''armijo_alpha'']"
    by (simp_all add: TR_parameters_items)
  moreover have "0.1 < width (box ''heaters'')" "width (box ''heaters'') < 10 ^ 18"
    "width (box ''walls'') < 10 ^ 18"
    by (simp_all add: box_values width_def)
  ultimately show ?thesis
    using written_radius value_radius read_radius written_TR_parameters read_TR_parameters
      solver_args
    by simp
qed

subsection \<open>Errors\<close>


lemma solver_outputs_read:
  "map (\<lambda>x. (x, read_by x))
       [''muoptfom'', ''_'', ''_'', ''_'', ''times_1'', ''mus_1'', ''Js_1'', ''FOC_1''] =
     [(''muoptfom'', []), (''_'', []), (''_'', []), (''_'', []), (''times_1'', []),
      (''mus_1'', [531, 532, 533]), (''Js_1'', []), (''FOC_1'', [])]"
  by code_simp





subsection \<open>The order of the pipeline\<close>

lemma calling_lines:
  "lines_calling ''EXC_problem'' = [181]"
  "lines_calling ''discretize_quadratic_pdeopt_stationary_cg'' = [194]"
  "lines_calling ''sample_randomly'' = [252, 330]"
  "lines_calling ''solve_optimization_NewtonMethod'' = [484]"
  by code_simp+

lemma reporting_lines:
  "lines_calling ''visualize'' = [344, 346, 348, 396, 397, 534]"
  "lines_calling ''savefig'' = [345]"
  "lines_calling ''print'' = [218, 219, 253, 424, 426, 532, 565, 566]"
  by code_simp+

lemma steps_calm:
  "filter (\<lambda>l. l \<in> set [181, 194, 252, 484]) (fst (exec_list (calm w) notebook)) =
     [181, 194, 252, 484]"
  by (simp add: exec_calm_notebook)

lemma steps_any:
  "prefix (filter (\<lambda>l. l \<in> set [181, 194, 252, 484]) (fst (exec_list w notebook)))
          [181, 194, 252, 484]"
proof -
  have "prefix (filter (\<lambda>l. l \<in> set [181, 194, 252, 484]) (fst (exec_list w notebook)))
     (filter (\<lambda>l. l \<in> set [181, 194, 252, 484]) (fst (exec_list (calm w) notebook)))"
    using prefix_calm_notebook by (rule filter_mono_prefix)
  then show ?thesis
    unfolding steps_calm .
qed

lemma marks_calm:
  "filter (\<lambda>l. l \<in> set ([181, 194, 252, 484] @ [344, 346, 348, 396, 397, 534] @ [345]
                          @ [218, 219, 253, 424, 426, 532, 565, 566]))
          (fst (exec_list (calm w) notebook)) =
     [181, 194, 218, 219, 252, 253, 344, 345, 346, 348, 396, 397, 424, 426, 484]
     @ replicate (count w 531 []) 532 @ [534]
     @ (if truth w 559 [] then [565, 566] else [])"
  by (simp add: exec_calm_notebook)

text \<open>
  Claim C5, as stated: the notebook builds the problem, discretizes, samples the starting
  parameter and runs the optimizer, and only afterwards visualizes and reports results.
  The last part fails: in the recorded run eleven statements that visualize, export a
  plot or print run before the call of the optimizer (line 484), among them the
  visualizations of the coefficient fields (lines 344 to 348) and of the state and the
  adjoint at the starting parameter (lines 396 and 397).
\<close>

theorem reporting_before_optimizer_counterexample:
  "filter (\<lambda>l. l \<in> set (lines_calling ''visualize'' @ lines_calling ''savefig''
                          @ lines_calling ''print''))
          (takeWhile (\<lambda>l. l \<noteq> 484) (fst (exec_list recorded notebook))) =
     [218, 219, 253, 344, 345, 346, 348, 396, 397, 424, 426]"
  unfolding reporting_lines by (simp add: recorded_def exec_quiet_notebook)

text \<open>
  Claim C5, amended: the problem is built at line 181 (\<open>EXC_problem\<close>), discretized at
  line 194, the starting parameter is sampled at line 252 and the optimizer runs at line
  484. In every run the executed lines are in increasing order, so that a statement never
  runs before one on an earlier line; of the four steps, those that run do so in this
  order, none skipped, and all four when nothing raises. The statements that read what
  the optimizer returned are lines 531 to 533. Visualizing and reporting are spread over
  the run: the calls of \<open>visualize\<close>, \<open>savefig\<close> and \<open>print\<close> of lines 218 to 426 run
  between the steps and before the optimizer, those of lines 532, 534, 565 and 566 after
  it.
\<close>

theorem pipeline_order:
  "lines_calling ''EXC_problem'' = [181]
   \<and> lines_calling ''discretize_quadratic_pdeopt_stationary_cg'' = [194]
   \<and> lines_calling ''sample_randomly'' = [252, 330]
   \<and> lines_calling ''solve_optimization_NewtonMethod'' = [484]
   \<and> lines_calling ''visualize'' = [344, 346, 348, 396, 397, 534]
   \<and> lines_calling ''savefig'' = [345]
   \<and> lines_calling ''print'' = [218, 219, 253, 424, 426, 532, 565, 566]
   \<and> read_by ''mus_1'' = [531, 532, 533]
   \<and> sorted (fst (exec_list w notebook))
   \<and> prefix (filter (\<lambda>l. l \<in> set [181, 194, 252, 484]) (fst (exec_list w notebook)))
            [181, 194, 252, 484]
   \<and> filter (\<lambda>l. l \<in> set ([181, 194, 252, 484] @ [344, 346, 348, 396, 397, 534] @ [345]
                            @ [218, 219, 253, 424, 426, 532, 565, 566]))
            (fst (exec_list (calm w) notebook)) =
       [181, 194, 218, 219, 252, 253, 344, 345, 346, 348, 396, 397, 424, 426, 484]
       @ replicate (count w 531 []) 532 @ [534]
       @ (if truth w 559 [] then [565, 566] else [])"
proof -
  have "read_by ''mus_1'' = [531, 532, 533]"
    using solver_outputs_read by simp
  then show ?thesis
    using calling_lines reporting_lines sorted_exec_notebook [of w] steps_any [of w]
      marks_calm [of w]
    by - (intro conjI; assumption)
qed

subsection \<open>Sampling\<close>

text \<open>
  The two calls of \<open>sample_randomly\<close> sample one vector each and pass a literal seed: 1
  for the starting parameter, 13 for \<open>vis_mu\<close>.
\<close>

lemma sample_calls: "sample_call 252 = Some (1, Some 1)" "sample_call 330 = Some (1, Some 13)"
  by code_simp+

subsection \<open>Files\<close>

lemma fs_effects_value:
  "fs_effects =
     [ReadFile (Some ''../../../EXC_data/Domain_of_interest.png''),
      ReadMasks (Some ''../../../EXC_data''), WriteFile (Some ''ciao.pdf'')]"
  by code_simp

lemma callees_value:
  "callees =
     [''append'', ''set_log_levels'', ''getLogger'', ''BitmapFunction'', ''set_input_dict'',
      ''EXC_problem'', ''sqrt'', ''discretize_quadratic_pdeopt_stationary_cg'',
      ''sample_randomly'', ''savefig'', ''solve_dual'', ''parse_parameter_inverse'',
      ''output_functional_hat'', ''solve_optimization_NewtonMethod'', ''len'', ''range'',
      ''pre_parse_parameter'', ''solve'', ''visualize'', ''EmptyBoundaryInfo'',
      ''ConstantFunction'', ''InterpolationOperator'', ''as_vector'', ''to_numpy'',
      ''from_numpy'', ''L2_OP'', ''apply2'', ''format'', ''print'']"
  by code_simp

lemma savefig_format: "kwarg ''format'' (args_of ''savefig'') = Some (Str ''pdf'')"
  by code_simp

lemma suffixes:
  "suffix ''.png'' ''../../../EXC_data/Domain_of_interest.png''" "suffix ''.pdf'' ''ciao.pdf''"
  by code_simp+

text \<open>
  Claim C7: the only file-system effects of the notebook are reads of PNG masks and writes
  of PDF plots. With the effects of the library calls as the spec gives them, the notebook
  reads the bitmap \<open>Domain_of_interest.png\<close> under the data path (line 133) and the masks
  under the data path (line 181), and writes \<open>ciao.pdf\<close> in format \<open>pdf\<close> (line 345),
  and nothing else; the functions it calls are listed, and none of them is a file
  operation of Python or numpy.
\<close>

theorem file_effects:
  "fs_effects =
     [ReadFile (Some ''../../../EXC_data/Domain_of_interest.png''),
      ReadMasks (Some ''../../../EXC_data''), WriteFile (Some ''ciao.pdf'')]
   \<and> suffix ''.png'' ''../../../EXC_data/Domain_of_interest.png''
   \<and> suffix ''.pdf'' ''ciao.pdf''
   \<and> kwarg ''format'' (args_of ''savefig'') = Some (Str ''pdf'')
   \<and> callees =
     [''append'', ''set_log_levels'', ''getLogger'', ''BitmapFunction'', ''set_input_dict'',
      ''EXC_problem'', ''sqrt'', ''discretize_quadratic_pdeopt_stationary_cg'',
      ''sample_randomly'', ''savefig'', ''solve_dual'', ''parse_parameter_inverse'',
      ''output_functional_hat'', ''solve_optimization_NewtonMethod'', ''len'', ''range'',
      ''pre_parse_parameter'', ''solve'', ''visualize'', ''EmptyBoundaryInfo'',
      ''ConstantFunction'', ''InterpolationOperator'', ''as_vector'', ''to_numpy'',
      ''from_numpy'', ''L2_OP'', ''apply2'', ''format'', ''print'']"
  using fs_effects_value suffixes savefig_format callees_value by simp

end
